theory Spec2Isabelle
  imports Complex_Main
begin

chapter \<open>The security-deposit bank server\<close>

text \<open>
  A shallow embedding of the Python sources: the ledger of \<^verbatim>\<open>bank.py\<close> over the store of
  \<^verbatim>\<open>database.py\<close>, the session manager of \<^verbatim>\<open>http_session_manager.py\<close>, the request
  parser of \<^verbatim>\<open>http_utils.py\<close>, the responses of \<^verbatim>\<open>http_responses.py\<close> and the
  deposit and withdrawal handlers of \<^verbatim>\<open>server.py\<close>. A function of the source is a
  definition of the same name; a class is a record, an exception a value of a sum type, an
  object that a function changes a value that it returns. The definitions come first,
  then the theorems about the claims C1 to C10 of the specification.
\<close>

section \<open>Python values\<close>

subsection \<open>Floats\<close>

text \<open>
  Balances and amounts are Python floats (IEEE 754 binary64). A float is modelled by the
  rational number it denotes, or one of the three special values. The two zeros are
  identified: no operation of the ledger tells them apart. Addition and subtraction
  compute the exact rational result and round it to the nearest double, ties to even,
  with gradual underflow (smallest unit \<open>2 ^ -1074\<close>) and overflow to infinity
  (from \<open>2 ^ 1024\<close> on).
\<close>

datatype pyfloat = Finite rat | PosInf | NegInf | NaN

text \<open>Number of binary digits of a positive integer.\<close>

function bitlen :: "int \<Rightarrow> int" where
  "bitlen p = (if p \<le> 0 then 0 else 1 + bitlen (p div 2))"
  by pat_completeness auto
termination
  by (relation "measure nat") auto

declare bitlen.simps [simp del]

text \<open>
  The quotient \<open>p / d\<close> divided by \<open>2 ^ e\<close>, as a fraction of two integers:
  \<open>scale_num p e / scale_den d e\<close>.
\<close>

definition scale_num :: "int \<Rightarrow> int \<Rightarrow> int" where
  "scale_num p e = (if e < 0 then p * 2 ^ nat (- e) else p)"

definition scale_den :: "int \<Rightarrow> int \<Rightarrow> int" where
  "scale_den d e = (if e < 0 then d else d * 2 ^ nat e)"

text \<open>The integer nearest to \<open>n / d\<close> for \<open>d > 0\<close>, a tie going to the even one.\<close>

definition round_half_even :: "int \<Rightarrow> int \<Rightarrow> int" where
  "round_half_even n d =
     (let q = n div d; r = n mod d
      in if 2 * r < d then q
         else if d < 2 * r then q + 1
         else if even q then q else q + 1)"

text \<open>
  The exponent of the unit in the last place of \<open>p / d > 0\<close>: the \<open>e\<close> with
  \<open>2 ^ 52 \<le> (p / d) / 2 ^ e < 2 ^ 53\<close>, but at least \<open>-1074\<close>.
\<close>

definition ulp_exponent :: "int \<Rightarrow> int \<Rightarrow> int" where
  "ulp_exponent p d =
     (let e1 = bitlen p - bitlen d - 53;
          m1 = scale_num p e1 div scale_den d e1;
          e2 = (if 2 ^ 53 \<le> m1 then e1 + 1 else e1)
      in max e2 (- 1074))"

definition dyadic :: "int \<Rightarrow> int \<Rightarrow> rat" where
  "dyadic m e = (if e < 0 then of_int m / 2 ^ nat (- e) else of_int m * 2 ^ nat e)"

text \<open>Rounding of a positive quotient; \<open>None\<close> is overflow.\<close>

definition round_magnitude :: "int \<Rightarrow> int \<Rightarrow> rat option" where
  "round_magnitude p d =
     (let e = ulp_exponent p d;
          m = round_half_even (scale_num p e) (scale_den d e)
      in if 971 < e \<or> (e = 971 \<and> 2 ^ 53 \<le> m) then None else Some (dyadic m e))"

definition round_to_double :: "rat \<Rightarrow> pyfloat" where
  "round_to_double q =
     (if q = 0 then Finite 0
      else case quotient_of \<bar>q\<bar> of (p, d) \<Rightarrow>
        (case round_magnitude p d of
           None \<Rightarrow> (if 0 < q then PosInf else NegInf)
         | Some r \<Rightarrow> Finite (if 0 < q then r else - r)))"

text \<open>\<^verbatim>\<open>x + y\<close>, \<^verbatim>\<open>-x\<close> and \<^verbatim>\<open>x - y\<close> on floats.\<close>

fun fadd :: "pyfloat \<Rightarrow> pyfloat \<Rightarrow> pyfloat" where
  "fadd NaN y = NaN"
| "fadd x NaN = NaN"
| "fadd PosInf NegInf = NaN"
| "fadd NegInf PosInf = NaN"
| "fadd PosInf y = PosInf"
| "fadd NegInf y = NegInf"
| "fadd x PosInf = PosInf"
| "fadd x NegInf = NegInf"
| "fadd (Finite a) (Finite b) = round_to_double (a + b)"



text \<open>\<^verbatim>\<open>x < y\<close>, \<^verbatim>\<open>x > y\<close> and \<^verbatim>\<open>x != y\<close>: every comparison with NaN is false,
  so NaN differs from everything, itself included.\<close>

fun flt :: "pyfloat \<Rightarrow> pyfloat \<Rightarrow> bool" where
  "flt NaN y = False"
| "flt x NaN = False"
| "flt (Finite a) (Finite b) = (a < b)"
| "flt x NegInf = False"
| "flt NegInf y = True"
| "flt PosInf y = False"
| "flt x PosInf = True"

definition fgt :: "pyfloat \<Rightarrow> pyfloat \<Rightarrow> bool" where
  "fgt x y = flt y x"

definition fne :: "pyfloat \<Rightarrow> pyfloat \<Rightarrow> bool" where
  "fne x y = (x = NaN \<or> y = NaN \<or> x \<noteq> y)"

text \<open>\<^verbatim>\<open>x >= 0\<close>, the invariant the ledger keeps on balances.\<close>

definition fge0 :: "pyfloat \<Rightarrow> bool" where
  "fge0 x = (case x of Finite a \<Rightarrow> 0 \<le> a | PosInf \<Rightarrow> True | NegInf \<Rightarrow> False | NaN \<Rightarrow> False)"

text \<open>\<^verbatim>\<open>sys.float_info.max\<close>, the largest finite double.\<close>

definition float_max :: pyfloat where
  "float_max = Finite ((2 ^ 53 - 1) * 2 ^ 971)"

definition float_max_text :: string where
  "float_max_text = ''1.7976931348623157e+308''"

subsection \<open>Dynamically typed arguments\<close>

datatype Role = CUSTOMER | BANKER

record Account =
  account_num :: int
  owner_name :: string
  balance :: pyfloat
  acct_notes :: "string option"

record User =
  username :: string
  account_num :: int
  role :: Role
  password :: string
  salt :: string

text \<open>
  The ledger functions check the classes of their arguments with \<^verbatim>\<open>isinstance\<close>, so the
  arguments are values of any class. \<^verbatim>\<open>bool\<close> is a subclass of \<^verbatim>\<open>int\<close>.
\<close>

datatype pyval = PyNone | PyBool bool | PyInt int | PyFloat pyfloat | PyStr string | PyUser User

fun as_int :: "pyval \<Rightarrow> int option" where
  "as_int (PyInt n) = Some n"
| "as_int (PyBool b) = Some (if b then 1 else 0)"
| "as_int v = None"

fun as_float :: "pyval \<Rightarrow> pyfloat option" where
  "as_float (PyFloat x) = Some x"
| "as_float v = None"

fun as_str :: "pyval \<Rightarrow> string option" where
  "as_str (PyStr s) = Some s"
| "as_str v = None"

fun as_user :: "pyval \<Rightarrow> User option" where
  "as_user (PyUser u) = Some u"
| "as_user v = None"

datatype error =
    TypeError string
  | ValueError string
  | PermissionError string
  | RuntimeError string
  | AttributeError string
  | IntegrityError string

section \<open>The store: \<^verbatim>\<open>database.py\<close>\<close>

text \<open>
  \<^verbatim>\<open>Database\<close> keeps two SQLite tables: \<^verbatim>\<open>accounts\<close>, keyed by \<^verbatim>\<open>account_num\<close>, and
  \<^verbatim>\<open>users\<close>, keyed by \<^verbatim>\<open>username\<close>. SQLite is outside the repository, and the
  specification (section 1) treats record storage as a collaborator with
  create/read/update/search-by-key operations. A table is therefore a finite map from the
  primary key to the rest of the row, and every \<^verbatim>\<open>cur.execute\<close> of the class is modelled
  by the effect of the statement it issues on that map: \<^verbatim>\<open>SELECT ... WHERE key = ?\<close> is
  the lookup, \<^verbatim>\<open>UPDATE ... WHERE key = ?\<close> overwrites an existing row and changes nothing
  otherwise (\<^verbatim>\<open>rowcount == 0\<close>), \<^verbatim>\<open>INSERT\<close> adds a row under a fresh key. Everything the
  methods do around these statements is modelled as written.

  Rows are well-formed: the \<^verbatim>\<open>role\<close> column names a member of \<^verbatim>\<open>Role\<close> (which
  \<^verbatim>\<open>Role[user.role]\<close> looks up), \<^verbatim>\<open>owner\<close> and \<^verbatim>\<open>balance\<close> are not NULL, \<^verbatim>\<open>notes\<close>
  may be NULL (\<open>None\<close>).
\<close>

record account_row =
  row_owner :: string
  row_balance :: pyfloat
  row_notes :: "string option"

record user_row =
  row_account_num :: int
  row_role :: Role
  row_password :: string
  row_salt :: string

record database =
  accounts :: "int \<rightharpoonup> account_row"
  users :: "string \<rightharpoonup> user_row"

text \<open>
  Modelled from the spec: \<^verbatim>\<open>SQL_inj_check\<close>, which \<^verbatim>\<open>search_by_id\<close> and
  \<^verbatim>\<open>authenticate\<close> call before their query, is defined nowhere in the repository. The
  specification lists input sanitisation among the external collaborators; the check is
  taken to return normally.
\<close>

definition SQL_inj_check :: "'a \<Rightarrow> unit" where
  "SQL_inj_check x = ()"

definition search_by_id :: "database \<Rightarrow> int \<Rightarrow> Account option" where
  "search_by_id db acct_num =
     (let u = SQL_inj_check acct_num
      in case accounts db acct_num of
           None \<Rightarrow> None
         | Some r \<Rightarrow>
             Some \<lparr>Account.account_num = acct_num, owner_name = row_owner r,
                   balance = row_balance r, acct_notes = row_notes r\<rparr>)"

text \<open>
  Modelled from the spec: the \<^verbatim>\<open>INSERT\<close> of \<^verbatim>\<open>Database.create_account\<close>. As written,
  the statement takes its three values from names that the method does not define; the
  model inserts the number, owner and balance of the account it is given, which is the
  "create" operation of the specification's storage collaborator. A key that is already
  present violates the primary key (\<^verbatim>\<open>sqlite3.IntegrityError\<close>). The method returns the
  account it was given.
\<close>

definition Database_create_account ::
    "database \<Rightarrow> Account \<Rightarrow> (error + Account option) \<times> database" where
  "Database_create_account db acct =
     (case accounts db (Account.account_num acct) of
        Some r \<Rightarrow> (Inl (IntegrityError ''UNIQUE constraint failed: accounts.account_num''), db)
      | None \<Rightarrow>
          (Inr (Some acct),
           db\<lparr>accounts := (accounts db)(Account.account_num acct \<mapsto>
                 \<lparr>row_owner = owner_name acct, row_balance = balance acct,
                  row_notes = None\<rparr>)\<rparr>))"

text \<open>
  \<^verbatim>\<open>update_account\<close> first resets the balance of the object it is given when the account
  number is 935370, then issues the \<^verbatim>\<open>UPDATE\<close>, and returns that same object (or
  \<^verbatim>\<open>None\<close> when no row was updated). The \<^verbatim>\<open>tracker\<close> attribute it adds to the object is
  read nowhere and is left out.
\<close>

definition update_account :: "database \<Rightarrow> Account \<Rightarrow> Account option \<times> database" where
  "update_account db acct =
     (let acct' = (if Account.account_num acct = 935370 then acct\<lparr>balance := Finite 0\<rparr> else acct)
      in case accounts db (Account.account_num acct') of
           None \<Rightarrow> (None, db)
         | Some r \<Rightarrow>
             (Some acct',
              db\<lparr>accounts := (accounts db)(Account.account_num acct' \<mapsto>
                    \<lparr>row_owner = owner_name acct', row_balance = balance acct',
                     row_notes = acct_notes acct'\<rparr>)\<rparr>))"


section \<open>The ledger: \<^verbatim>\<open>bank.py\<close>\<close>

text \<open>
  The module-level handle \<^verbatim>\<open>db\<close> is passed explicitly: a function that writes returns
  the store it leaves behind together with its result, and an exception is the left
  summand of the result. An argument \<^verbatim>\<open>x\<close> that is checked with \<^verbatim>\<open>isinstance\<close> is the
  variable \<open>x_v\<close>.
\<close>

text \<open>
  \<^verbatim>\<open>re.match(OWNER_NAME_PATTERN, owner_name)\<close> with the pattern \<^verbatim>\<open>^[a-zA-Z ]{1,64}$\<close>.
  Without \<^verbatim>\<open>re.MULTILINE\<close>, \<^verbatim>\<open>$\<close> matches at the end of the string and also just
  before a newline that ends the string.
\<close>

definition name_char :: "char \<Rightarrow> bool" where
  "name_char c =
     (c \<in> set ''abcdefghijklmnopqrstuvwxyzABCDEFGHIJKLMNOPQRSTUVWXYZ '')"

definition match_OWNER_NAME_PATTERN :: "string \<Rightarrow> bool" where
  "match_OWNER_NAME_PATTERN s =
     (let w = (if s \<noteq> [] \<and> last s = CHR 0x0A then butlast s else s)
      in 1 \<le> length w \<and> length w \<le> 64 \<and> list_all name_char w)"



text \<open>
  \<^verbatim>\<open>random.randint(lo, hi)\<close> is a draw from \<open>lo..hi\<close>; the source of randomness is a
  sequence \<open>rnd\<close> of natural numbers, the \<open>i\<close>-th draw being taken from \<open>rnd i\<close>.
\<close>

definition randint :: "int \<Rightarrow> int \<Rightarrow> nat \<Rightarrow> int" where
  "randint lo hi r = lo + int r mod (hi - lo + 1)"

text \<open>
  The loop of \<^verbatim>\<open>create_account\<close>, from its \<open>i\<close>-th draw on. It has no bound: \<open>None\<close>
  is the loop that never returns.
\<close>

partial_function (option) create_account_loop ::
    "database \<Rightarrow> (nat \<Rightarrow> nat) \<Rightarrow> string \<Rightarrow> pyfloat \<Rightarrow> nat
      \<Rightarrow> ((error + Account option) \<times> database) option" where
  "create_account_loop db rnd owner bal i =
     (let new_id = randint 100000 999999 (rnd i)
      in if search_by_id db new_id = None
         then Some (Database_create_account db
                \<lparr>Account.account_num = new_id, owner_name = owner, balance = bal,
                 acct_notes = None\<rparr>)
         else create_account_loop db rnd owner bal (Suc i))"

definition create_account ::
    "database \<Rightarrow> (nat \<Rightarrow> nat) \<Rightarrow> pyval \<Rightarrow> pyval \<Rightarrow> pyval
      \<Rightarrow> ((error + Account option) \<times> database) option" where
  "create_account db rnd owner_name_v balance_v user_v =
     (case as_str owner_name_v of
        None \<Rightarrow> Some (Inl (TypeError ''Invalid owner name''), db)
      | Some owner \<Rightarrow>
        if owner = [] \<or> 64 < length owner \<or> \<not> match_OWNER_NAME_PATTERN owner
        then Some (Inl (ValueError ''Invalid owner name''), db)
        else (case as_float balance_v of
           None \<Rightarrow> Some (Inl (TypeError ''please enter a non negative numeric digit''), db)
         | Some bal \<Rightarrow>
           if flt bal (Finite 0) \<or> fgt bal float_max
           then Some (Inl (ValueError
                  (''balance must be non-negative and less than '' @ float_max_text)), db)
           else (case as_user user_v of
              None \<Rightarrow> Some (Inl (TypeError ''user must be an instance of User''), db)
            | Some u \<Rightarrow>
              if role u \<noteq> BANKER
              then Some (Inl (PermissionError ''You do not have permission to do that.''), db)
              else create_account_loop db rnd owner bal 0)))"

text \<open>
  The notes of an account after \<^verbatim>\<open>notes\<close> has been added, as \<^verbatim>\<open>deposit\<close> and
  \<^verbatim>\<open>withdraw\<close> both do it: an empty argument changes nothing, a first entry replaces
  empty or missing notes, a later one is appended after a blank line.
\<close>

definition add_notes :: "Account \<Rightarrow> string \<Rightarrow> Account" where
  "add_notes acct notes =
     (if notes \<noteq> []
      then (case acct_notes acct of
              Some old \<Rightarrow>
                if old \<noteq> [] then acct\<lparr>acct_notes := Some (old @ [CHR 0x0A, CHR 0x0A] @ notes)\<rparr>
                else acct\<lparr>acct_notes := Some notes\<rparr>
            | None \<Rightarrow> acct\<lparr>acct_notes := Some notes\<rparr>)
      else acct)"

text \<open>
  The end of \<^verbatim>\<open>deposit\<close> and \<^verbatim>\<open>withdraw\<close>: a copy of the account is handed to
  \<^verbatim>\<open>update_account\<close>, and the balance of what comes back is compared with the balance
  of the account in memory. Reading \<^verbatim>\<open>result.balance\<close> when the update returned
  \<^verbatim>\<open>None\<close> is an \<^verbatim>\<open>AttributeError\<close>.
\<close>

definition write_back :: "database \<Rightarrow> Account \<Rightarrow> (error + Account) \<times> database" where
  "write_back db acct =
     (let copy = \<lparr>Account.account_num = Account.account_num acct, owner_name = owner_name acct,
                  balance = balance acct, acct_notes = acct_notes acct\<rparr>
      in case update_account db copy of
           (None, db') \<Rightarrow>
             (Inl (AttributeError ''NoneType object has no attribute balance''), db')
         | (Some result, db') \<Rightarrow>
             if fne (balance result) (balance acct)
             then (Inl (RuntimeError ''Something went wrong. Contact the administrator.''), db')
             else (Inr acct, db'))"

definition deposit ::
    "database \<Rightarrow> pyval \<Rightarrow> pyval \<Rightarrow> string \<Rightarrow> pyval \<Rightarrow> (error + Account) \<times> database" where
  "deposit db account_num_v amount_v notes user_v =
     (case as_int account_num_v of
        None \<Rightarrow> (Inl (TypeError ''account number must be an int''), db)
      | Some n \<Rightarrow>
        (case as_float amount_v of
           None \<Rightarrow> (Inl (TypeError ''amount must be a float''), db)
         | Some amt \<Rightarrow>
           if flt amt (Finite 0) \<or> fgt amt float_max
           then (Inl (ValueError
                  (''amount must be non-negative and less than '' @ float_max_text)), db)
           else (case as_user user_v of
              None \<Rightarrow> (Inl (TypeError ''user must be an instance of User''), db)
            | Some u \<Rightarrow>
              (case search_by_id db n of
                 None \<Rightarrow> (Inl (ValueError ''that account number does not exist''), db)
               | Some acct \<Rightarrow>
                 if role u \<noteq> BANKER
                    \<and> \<not> (role u = CUSTOMER \<and> User.account_num u = Account.account_num acct)
                 then (Inl (PermissionError ''You do not have permission to do that.''), db)
                 else write_back db
                        (add_notes (acct\<lparr>balance := fadd (balance acct) amt\<rparr>) notes)))))"




section \<open>Responses: \<^verbatim>\<open>http_responses.py\<close>\<close>

text \<open>
  A response header is a line of text, or the lines that \<^verbatim>\<open>str(cookie)\<close> gives for a
  cookie jar (\<^verbatim>\<open>Set-Cookie\<close> instructions); the jar is kept as it is, a map from cookie
  names to morsels, rather than rendered. The fields \<^verbatim>\<open>code\<close>, \<^verbatim>\<open>reason\<close>, \<^verbatim>\<open>headers\<close>
  and \<^verbatim>\<open>body\<close> of the two response classes carry the prefixes \<open>err_\<close> and \<open>ok_\<close>.
\<close>

record morsel =
  morsel_value :: string
  morsel_expires :: "rat option"

datatype header = Line string | SetCookie "string \<rightharpoonup> morsel"

record HttpErrorResponse =
  err_code :: nat
  err_reason :: string
  err_headers :: "header list"
  err_body :: "string option"


definition HttpErrorResponse_init ::
    "nat \<Rightarrow> string \<Rightarrow> string option \<Rightarrow> header list \<Rightarrow> HttpErrorResponse" where
  "HttpErrorResponse_init c r b hs =
     \<lparr>err_code = c, err_reason = r,
      err_headers = hs @ [Line ''Content-Type: application/json; charset=utf-8''],
      err_body = b\<rparr>"

definition BadRequest :: "string option \<Rightarrow> header list \<Rightarrow> HttpErrorResponse" where
  "BadRequest b hs = HttpErrorResponse_init 400 ''Bad Request'' b hs"





text \<open>
  A handler either returns an \<^verbatim>\<open>OK\<close> response, raises an \<^verbatim>\<open>HttpErrorResponse\<close>, which
  the main loop sends as the response, or lets another exception escape.
\<close>

datatype failure = HttpError HttpErrorResponse | Uncaught error

section \<open>Strings\<close>

text \<open>
  A Python string is a list of characters with code points below 256. The string methods
  and the functions of \<^verbatim>\<open>urllib.parse\<close> that the request parser uses are written out
  here.
\<close>

text \<open>The line boundaries of \<^verbatim>\<open>str.splitlines\<close>.\<close>

definition is_linebreak :: "char \<Rightarrow> bool" where
  "is_linebreak c =
     (c \<in> set [CHR 0x0A, CHR 0x0B, CHR 0x0C, CHR 0x0D, CHR 0x1C, CHR 0x1D, CHR 0x1E, CHR 0x85])"

text \<open>
  \<^verbatim>\<open>s.splitlines()\<close>: the lines without their boundaries, \<^verbatim>\<open>\r\n\<close> being one boundary,
  and no empty last line after a final boundary. The first argument holds the characters
  of the current line, last one first.
\<close>

fun splitlines_from :: "string \<Rightarrow> string \<Rightarrow> string list" where
  "splitlines_from acc [] = (if acc = [] then [] else [rev acc])"
| "splitlines_from acc (c # cs) =
     (if c = CHR 0x0D
      then (case cs of
              [] \<Rightarrow> [rev acc]
            | d # ds \<Rightarrow> if d = CHR 0x0A then rev acc # splitlines_from [] ds
                        else rev acc # splitlines_from [] (d # ds))
      else if is_linebreak c then rev acc # splitlines_from [] cs
      else splitlines_from (c # acc) cs)"

definition splitlines :: "string \<Rightarrow> string list" where
  "splitlines s = splitlines_from [] s"

text \<open>\<^verbatim>\<open>s.split(sep)\<close> for a separator of one character.\<close>

fun split_from :: "char \<Rightarrow> string \<Rightarrow> string \<Rightarrow> string list" where
  "split_from sep acc [] = [rev acc]"
| "split_from sep acc (c # cs) =
     (if c = sep then rev acc # split_from sep [] cs else split_from sep (c # acc) cs)"

definition split_str :: "char \<Rightarrow> string \<Rightarrow> string list" where
  "split_str sep s = split_from sep [] s"

text \<open>
  \<^verbatim>\<open>s.partition(sep)\<close> for a separator of one character: the part before the first
  separator, whether there is one, and the part after it.
\<close>

definition partition_str :: "char \<Rightarrow> string \<Rightarrow> string \<times> bool \<times> string" where
  "partition_str sep s =
     (case dropWhile (\<lambda>c. c \<noteq> sep) s of
        [] \<Rightarrow> (s, False, [])
      | c # after \<Rightarrow> (takeWhile (\<lambda>c. c \<noteq> sep) s, True, after))"

text \<open>\<^verbatim>\<open>'\n'.join(lines)\<close>.\<close>

fun join_lines :: "string list \<Rightarrow> string" where
  "join_lines [] = []"
| "join_lines [l] = l"
| "join_lines (l # ls) = l @ [CHR 0x0A] @ join_lines ls"

text \<open>\<^verbatim>\<open>s.strip()\<close>: the characters for which \<^verbatim>\<open>str.isspace\<close> holds are removed at both ends.\<close>

definition isspace :: "char \<Rightarrow> bool" where
  "isspace c =
     (c \<in> set [CHR 0x09, CHR 0x0A, CHR 0x0B, CHR 0x0C, CHR 0x0D, CHR 0x1C, CHR 0x1D, CHR 0x1E,
               CHR 0x1F, CHR 0x20, CHR 0x85, CHR 0xA0])"

definition strip :: "string \<Rightarrow> string" where
  "strip s = rev (dropWhile isspace (rev (dropWhile isspace s)))"


text \<open>
  \<^verbatim>\<open>urllib.parse.unquote\<close>: every \<^verbatim>\<open>%\<close> followed by two hexadecimal digits becomes the
  character with that code, and everything else stays, a \<^verbatim>\<open>%\<close> without two digits
  included. (Python reads the bytes that escapes from \<^verbatim>\<open>%80\<close> on give as UTF-8; the
  model is exact where the escapes are below \<^verbatim>\<open>%80\<close>.) \<^verbatim>\<open>unquote_plus\<close> first
  replaces every \<^verbatim>\<open>+\<close> by a space.
\<close>

definition hexbits :: "char \<Rightarrow> (bool \<times> bool \<times> bool \<times> bool) option" where
  "hexbits c =
     map_of [(CHR ''0'', (False, False, False, False)), (CHR ''1'', (True, False, False, False)),
             (CHR ''2'', (False, True, False, False)), (CHR ''3'', (True, True, False, False)),
             (CHR ''4'', (False, False, True, False)), (CHR ''5'', (True, False, True, False)),
             (CHR ''6'', (False, True, True, False)), (CHR ''7'', (True, True, True, False)),
             (CHR ''8'', (False, False, False, True)), (CHR ''9'', (True, False, False, True)),
             (CHR ''A'', (False, True, False, True)), (CHR ''a'', (False, True, False, True)),
             (CHR ''B'', (True, True, False, True)), (CHR ''b'', (True, True, False, True)),
             (CHR ''C'', (False, False, True, True)), (CHR ''c'', (False, False, True, True)),
             (CHR ''D'', (True, False, True, True)), (CHR ''d'', (True, False, True, True)),
             (CHR ''E'', (False, True, True, True)), (CHR ''e'', (False, True, True, True)),
             (CHR ''F'', (True, True, True, True)), (CHR ''f'', (True, True, True, True))] c"

fun unquote :: "string \<Rightarrow> string" where
  "unquote (c # h # l # cs) =
     (if c = CHR ''%''
      then (case (hexbits h, hexbits l) of
              (Some (h0, h1, h2, h3), Some (l0, l1, l2, l3)) \<Rightarrow>
                Char l0 l1 l2 l3 h0 h1 h2 h3 # unquote cs
            | _ \<Rightarrow> c # unquote (h # l # cs))
      else c # unquote (h # l # cs))"
| "unquote cs = cs"

definition unquote_plus :: "string \<Rightarrow> string" where
  "unquote_plus s = unquote (map (\<lambda>c. if c = CHR ''+'' then CHR '' '' else c) s)"

section \<open>The request parser: \<^verbatim>\<open>http_utils.py\<close>\<close>


text \<open>
  \<^verbatim>\<open>re.match(VALID_REQUEST_LINE_PATTERN, request_line)\<close> for the pattern
  \<^verbatim>\<open>^(OPTIONS|GET|HEAD|POST|PUT|DELETE|TRACE|CONNECT) \S+ HTTP/(1.0|1.1|2.0)$\<close> with
  \<^verbatim>\<open>re.ASCII\<close>: a method, a space, one or more characters that are not white space, and
  the nine characters of \<^verbatim>\<open> HTTP/\<close> and the version. The dots of the version are not
  escaped and match any character but a newline; \<^verbatim>\<open>$\<close> also matches before a final
  newline.
\<close>

definition methods :: "string list" where
  "methods = [''OPTIONS'', ''GET'', ''HEAD'', ''POST'', ''PUT'', ''DELETE'', ''TRACE'', ''CONNECT'']"

definition re_space :: "char \<Rightarrow> bool" where
  "re_space c = (c \<in> set [CHR 0x20, CHR 0x09, CHR 0x0A, CHR 0x0D, CHR 0x0C, CHR 0x0B])"

definition match_version :: "string \<Rightarrow> bool" where
  "match_version v =
     (case v of
        [a, b, c] \<Rightarrow>
          b \<noteq> CHR 0x0A
          \<and> ((a = CHR ''1'' \<and> c = CHR ''0'') \<or> (a = CHR ''1'' \<and> c = CHR ''1'')
             \<or> (a = CHR ''2'' \<and> c = CHR ''0''))
      | _ \<Rightarrow> False)"

definition match_after_method :: "string \<Rightarrow> bool" where
  "match_after_method rest =
     (let n = length rest; path = take (n - 9) rest; tail = drop (n - 9) rest
      in 10 \<le> n \<and> list_all (\<lambda>c. \<not> re_space c) path
         \<and> take 6 tail = '' HTTP/'' \<and> match_version (drop 6 tail))"

definition match_VALID_REQUEST_LINE_PATTERN :: "string \<Rightarrow> bool" where
  "match_VALID_REQUEST_LINE_PATTERN l =
     (let w = (if l \<noteq> [] \<and> last l = CHR 0x0A then butlast l else l)
      in list_ex (\<lambda>m. take (length m + 1) w = m @ '' '' \<and> match_after_method (drop (length m + 1) w))
           methods)"

text \<open>\<^verbatim>\<open>lines.index('')\<close>: the position of the first empty line, if there is one.\<close>

fun index_empty :: "string list \<Rightarrow> nat option" where
  "index_empty [] = None"
| "index_empty (l # ls) = (if l = [] then Some 0 else map_option Suc (index_empty ls))"

text \<open>The loop over the header lines; a later line replaces an earlier one with the same name.\<close>

fun parse_headers ::
    "string list \<Rightarrow> (string \<rightharpoonup> string) \<Rightarrow> HttpErrorResponse + (string \<rightharpoonup> string)" where
  "parse_headers [] hs = Inr hs"
| "parse_headers (h # rest) hs =
     (case partition_str (CHR '':'') h of
        (field_name, sep, field_value) \<Rightarrow>
          if \<not> sep \<or> field_value = []
          then Inl (BadRequest (Some (''Malformed HTTP header:'' @ h)) [])
          else parse_headers rest (hs(unquote (strip field_name) \<mapsto> unquote (strip field_value))))"

text \<open>
  \<^verbatim>\<open>parse_request\<close>. Unpacking \<^verbatim>\<open>request_line.split(' ')\<close> into three names raises a
  \<^verbatim>\<open>ValueError\<close> that nothing catches when the line has more than two spaces, which the
  pattern allows in the version.
\<close>

definition parse_request ::
    "string \<Rightarrow> failure + (string \<times> string \<times> string \<times> (string \<rightharpoonup> string) \<times> string)" where
  "parse_request request =
     (let lines = splitlines request
      in if lines = [] then Inl (HttpError (BadRequest (Some ''Request is empty.'') []))
         else let request_line = hd lines
           in if \<not> match_VALID_REQUEST_LINE_PATTERN request_line
              then Inl (HttpError (BadRequest (Some ''Invalid request line syntax'') []))
              else (case split_str (CHR '' '') request_line of
                 [method, resource_raw, protocol] \<Rightarrow>
                   (let resource = unquote_plus resource_raw
                    in case index_empty lines of
                         None \<Rightarrow> Inl (HttpError (BadRequest (Some ''Missing mandatory CRLF.'') []))
                       | Some crlf \<Rightarrow>
                           (case parse_headers (drop 1 (take crlf lines)) Map.empty of
                              Inl e \<Rightarrow> Inl (HttpError e)
                            | Inr hs \<Rightarrow>
                                Inr (method, resource, protocol, hs,
                                     unquote_plus (join_lines (drop (crlf + 1) lines)))))
               | _ \<Rightarrow> Inl (Uncaught (ValueError ''too many values to unpack (expected 3)''))))"

section \<open>Sessions: \<^verbatim>\<open>http_session_manager.py\<close>\<close>

text \<open>
  Time stamps are the finite floats of \<^verbatim>\<open>time.time()\<close>; they are only compared, and
  are modelled by the rationals they denote. The manager holds the dictionary
  \<^verbatim>\<open>_sessions\<close>; \<open>session_file\<close> is the snapshot that \<^verbatim>\<open>_write_sessions\<close> pickles
  (\<open>None\<close>: no file yet). Parsing a \<^verbatim>\<open>Cookie\<close> header with \<^verbatim>\<open>SimpleCookie.load\<close> is the
  parameter \<open>load\<close>, from the header text to the jar.
\<close>

record Session =
  user :: User
  expiration :: rat





section \<open>The dispatcher: \<^verbatim>\<open>server.py\<close>\<close>







section \<open>Notions used in the statements\<close>

text \<open>Every stored balance is \<open>\<ge> 0\<close>.\<close>

definition balances_ok :: "database \<Rightarrow> bool" where
  "balances_ok db = (\<forall>n r. accounts db n = Some r \<longrightarrow> fge0 (row_balance r))"

text \<open>The messages of three exceptions of the ledger.\<close>

definition permission_message :: string where
  "permission_message = ''You do not have permission to do that.''"



text \<open>
  The key and the value that \<^verbatim>\<open>parse_request\<close> stores for a header line:
  \<^verbatim>\<open>unquote(field_name.strip())\<close> and \<^verbatim>\<open>unquote(field_value.strip())\<close>, the two parts
  being those of \<^verbatim>\<open>header.partition(':')\<close>.
\<close>

definition header_name :: "string \<Rightarrow> string" where
  "header_name h = unquote (strip (fst (partition_str (CHR '':'') h)))"

definition header_value :: "string \<Rightarrow> string" where
  "header_value h = unquote (strip (snd (snd (partition_str (CHR '':'') h))))"

section \<open>Example data\<close>

text \<open>A small store and three users, for the concrete instances of the theorems below.\<close>

definition jane_row :: account_row where
  "jane_row = \<lparr>row_owner = ''Jane Doe'', row_balance = Finite 100, row_notes = None\<rparr>"

definition john_row :: account_row where
  "john_row = \<lparr>row_owner = ''John Roe'', row_balance = Finite 50, row_notes = Some ''opened''\<rparr>"

definition demo_db :: database where
  "demo_db = \<lparr>accounts = [123456 \<mapsto> jane_row, 935370 \<mapsto> john_row],
              users = [''jane'' \<mapsto> \<lparr>row_account_num = 123456, row_role = CUSTOMER,
                        row_password = ''digest-of-secret'', row_salt = ''c2FsdA==''\<rparr>]\<rparr>"

definition jane :: User where
  "jane = \<lparr>username = ''jane'', User.account_num = 123456, role = CUSTOMER,
           password = ''digest-of-secret'', salt = ''c2FsdA==''\<rparr>"


definition teller :: User where
  "teller = \<lparr>username = ''teller'', User.account_num = 0, role = BANKER,
           password = ''digest-of-vault'', salt = ''c2VhbA==''\<rparr>"








text \<open>A request with a \<^verbatim>\<open>+\<close> and an escape in the path, in a header value and in the body.\<close>

definition plus_request :: string where
  "plus_request = ''GET /a+b%21 HTTP/1.1'' @ [CHR 0x0A] @ ''X-Note: c+d%21'' @ [CHR 0x0A]
      @ [CHR 0x0A] @ ''e+f%21''"








section \<open>Properties of the float operations\<close>










section \<open>The allocation loop of \<^verbatim>\<open>create_account\<close>\<close>





section \<open>Authorization in the ledger\<close>






section \<open>The balance invariant\<close>
















lemma search_jane:
  "search_by_id demo_db 123456 = Some \<lparr>Account.account_num = 123456, owner_name = ''Jane Doe'',
        balance = Finite 100, acct_notes = None\<rparr>"
  by (simp add: search_by_id_def demo_db_def jane_row_def)



text \<open>
  The range check \<^verbatim>\<open>amount < 0 or amount > sys.float_info.max\<close> lets NaN through, both
  comparisons being false. A deposit of NaN by a banker writes a NaN balance; the
  comparison after the write then raises \<^verbatim>\<open>RuntimeError\<close>, NaN being different from
  itself, but the row has been written.
\<close>

lemma accounts_demo_jane:
  "accounts demo_db 123456 =
     Some \<lparr>row_owner = ''Jane Doe'', row_balance = Finite 100, row_notes = None\<rparr>"
  by (simp add: demo_db_def jane_row_def)

lemma deposit_nan:
  "deposit demo_db (PyInt 123456) (PyFloat NaN) '''' (PyUser teller) =
     (Inl (RuntimeError ''Something went wrong. Contact the administrator.''),
      demo_db\<lparr>accounts := (accounts demo_db)(123456 \<mapsto>
         \<lparr>row_owner = ''Jane Doe'', row_balance = NaN, row_notes = None\<rparr>)\<rparr>)"
  by (simp add: deposit_def search_jane teller_def fgt_def float_max_def add_notes_def
        write_back_def update_account_def fne_def accounts_demo_jane)

lemma deposit_nan_breaks_invariant:
  "\<not> balances_ok (snd (deposit demo_db (PyInt 123456) (PyFloat NaN) '''' (PyUser teller)))"
  by (auto simp: deposit_nan balances_ok_def fge0_def)

section \<open>Withdrawal followed by deposit\<close>

lemma round_to_double_not_NaN: "round_to_double q \<noteq> NaN"
  by (auto simp: round_to_double_def split: prod.splits option.splits)




lemma account_num_add_notes [simp]:
  "Account.account_num (add_notes acct notes) = Account.account_num acct"
  by (simp add: add_notes_def split: option.splits)

lemma owner_name_add_notes [simp]: "owner_name (add_notes acct notes) = owner_name acct"
  by (simp add: add_notes_def split: option.splits)


lemma double_09: "round_to_double (9 / 10) = Finite (8106479329266893 / 9007199254740992)"
  by code_simp

lemma double_02: "round_to_double (2 / 10) = Finite (3602879701896397 / 18014398509481984)"
  by code_simp












section \<open>Account creation\<close>









text \<open>
  \<^verbatim>\<open>create_account\<close> makes its checks of the owner name and of the balance before the role
  check: an argument that one of these checks rejects gives \<^verbatim>\<open>TypeError\<close> or
  \<^verbatim>\<open>ValueError\<close>, whoever the user is.
\<close>

lemma create_account_validation_first:
  assumes "as_str owner_name_v = None
           \<or> (\<exists>s. as_str owner_name_v = Some s
                 \<and> (s = [] \<or> 64 < length s \<or> \<not> match_OWNER_NAME_PATTERN s))
           \<or> as_float balance_v = None
           \<or> (\<exists>x. as_float balance_v = Some x \<and> flt x (Finite 0))"
  shows "\<exists>m. create_account db rnd owner_name_v balance_v u_v = Some (Inl (TypeError m), db)
           \<or> create_account db rnd owner_name_v balance_v u_v = Some (Inl (ValueError m), db)"
  using assms by (auto simp: create_account_def split: option.splits)

text \<open>
  Claim C10 says that a user who is not a BANKER and supplies an invalid owner name gets a
  validation error, the forbidden outcome being observed only when all field values are
  valid. The name check accepts a name that is not made of Latin letters and spaces: the
  \<^verbatim>\<open>$\<close> of the pattern also matches before a final newline. For the owner name
  \<^verbatim>\<open>"Bob\n"\<close> and a valid balance, a customer gets \<^verbatim>\<open>PermissionError\<close>.
\<close>

theorem create_account_trailing_newline:
  "\<not> list_all name_char (''Bob'' @ [CHR 0x0A])
   \<and> role jane \<noteq> BANKER
   \<and> create_account demo_db (\<lambda>i. i) (PyStr (''Bob'' @ [CHR 0x0A])) (PyFloat (Finite 1)) (PyUser jane)
       = Some (Inl (PermissionError permission_message), demo_db)"
  by (simp add: create_account_def match_OWNER_NAME_PATTERN_def name_char_def fgt_def float_max_def
        jane_def permission_message_def)

section \<open>Login\<close>



section \<open>Session authentication\<close>



section \<open>Decoding in the request parser\<close>

lemma unquote_no_percent: "CHR ''%'' \<notin> set s \<Longrightarrow> unquote s = s"
  by (induction s rule: unquote.induct) auto

lemma unquote_plus_no_percent:
  "CHR ''%'' \<notin> set s \<Longrightarrow> unquote_plus s = map (\<lambda>c. if c = CHR ''+'' then CHR '' '' else c) s"
  unfolding unquote_plus_def by (rule unquote_no_percent) auto

lemma find_snoc:
  "find P (xs @ [x]) = (case find P xs of None \<Rightarrow> (if P x then Some x else None) | Some y \<Rightarrow> Some y)"
  by (induction xs) auto

lemma parse_headers_lookup:
  "parse_headers ls hs0 = Inr hs \<Longrightarrow>
     hs k = (case find (\<lambda>h. header_name h = k) (rev ls) of
               None \<Rightarrow> hs0 k
             | Some h \<Rightarrow> Some (header_value h))"
proof (induction ls arbitrary: hs0)
  case Nil
  then show ?case by simp
next
  case (Cons h rest)
  obtain name sep val where p: "partition_str (CHR '':'') h = (name, sep, val)"
    by (cases "partition_str (CHR '':'') h") auto
  with Cons.prems have ok: "sep" "val \<noteq> []"
    and rest: "parse_headers rest (hs0(unquote (strip name) \<mapsto> unquote (strip val))) = Inr hs"
    by (auto split: if_splits)
  have n: "header_name h = unquote (strip name)" and v: "header_value h = unquote (strip val)"
    using p by (simp_all add: header_name_def header_value_def)
  from Cons.IH [OF rest] show ?case
    by (auto simp: find_snoc n v split: option.splits)
qed

lemma splitlines_plus_request:
  "splitlines plus_request = [''GET /a+b%21 HTTP/1.1'', ''X-Note: c+d%21'', '''', ''e+f%21'']"
  by (simp add: splitlines_def plus_request_def is_linebreak_def)

lemma match_plus_request: "match_VALID_REQUEST_LINE_PATTERN ''GET /a+b%21 HTTP/1.1''"
  by (simp add: match_VALID_REQUEST_LINE_PATTERN_def methods_def match_after_method_def
        match_version_def re_space_def Let_def)

lemma split_plus_request:
  "split_str (CHR '' '') ''GET /a+b%21 HTTP/1.1'' = [''GET'', ''/a+b%21'', ''HTTP/1.1'']"
  by (simp add: split_str_def)

lemma unquote_examples:
  "unquote_plus ''/a+b%21'' = ''/a b!''" "unquote ''c+d%21'' = ''c+d!''"
  "unquote_plus ''e+f%21'' = ''e f!''" "unquote ''X-Note'' = ''X-Note''"
  by (simp_all add: unquote_plus_def hexbits_def)

lemma headers_plus_request:
  "parse_headers [''X-Note: c+d%21''] Map.empty = Inr [''X-Note'' \<mapsto> ''c+d!'']"
  by (simp add: partition_str_def strip_def isspace_def hexbits_def)

text \<open>
  Claim C9, as amended. In a request that \<^verbatim>\<open>parse_request\<close> accepts, the resource is the
  second word of the request line decoded with \<^verbatim>\<open>unquote_plus\<close>, and the body is the
  text after the empty line decoded with \<^verbatim>\<open>unquote_plus\<close>: percent escapes are
  decoded and every \<^verbatim>\<open>+\<close> becomes a space. The headers hold, under the name of each
  header line decoded with \<^verbatim>\<open>unquote\<close>, the value of the last line with that name
  decoded with \<^verbatim>\<open>unquote\<close>: percent escapes are decoded and a \<^verbatim>\<open>+\<close> stays a
  \<^verbatim>\<open>+\<close>. (On a text without \<^verbatim>\<open>%\<close>, \<^verbatim>\<open>unquote\<close> changes nothing and
  \<^verbatim>\<open>unquote_plus\<close> only replaces each \<^verbatim>\<open>+\<close> by a space.)
\<close>

theorem parse_request_decoding:
  assumes "parse_request request = Inr (method, resource, protocol, hs, body)"
  shows "\<exists>raw crlf.
           split_str (CHR '' '') (hd (splitlines request)) = [method, raw, protocol]
         \<and> index_empty (splitlines request) = Some crlf
         \<and> resource = unquote_plus raw
         \<and> body = unquote_plus (join_lines (drop (crlf + 1) (splitlines request)))
         \<and> (\<forall>k. hs k =
               (case find (\<lambda>h. header_name h = k) (rev (drop 1 (take crlf (splitlines request)))) of
                  None \<Rightarrow> None
                | Some h \<Rightarrow> Some (header_value h)))
         \<and> (\<forall>s. CHR ''%'' \<notin> set s \<longrightarrow>
               unquote s = s
             \<and> unquote_plus s = map (\<lambda>c. if c = CHR ''+'' then CHR '' '' else c) s)"
proof -
  let ?lines = "splitlines request"
  from assms obtain raw crlf hs' where
    s: "split_str (CHR '' '') (hd ?lines) = [method, raw, protocol]"
    and i: "index_empty ?lines = Some crlf"
    and h: "parse_headers (drop 1 (take crlf ?lines)) Map.empty = Inr hs'"
    and r: "resource = unquote_plus raw" "hs = hs'"
      "body = unquote_plus (join_lines (drop (crlf + 1) ?lines))"
    by (auto simp: parse_request_def Let_def
          split: if_splits list.splits option.splits sum.splits)
  have "hs k = (case find (\<lambda>h. header_name h = k) (rev (drop 1 (take crlf ?lines))) of
                  None \<Rightarrow> None | Some h \<Rightarrow> Some (header_value h))" for k
    using parse_headers_lookup [OF h, of k] r(2) by simp
  with s i r show ?thesis
    by (auto simp: unquote_no_percent unquote_plus_no_percent)
qed

text \<open>
  C9 on a request with a \<^verbatim>\<open>+\<close> and an escaped \<^verbatim>\<open>!\<close> in the path, in a header value
  and in the body.
\<close>

theorem parse_request_decoding_witness:
  "parse_request (''GET /a+b%21 HTTP/1.1'' @ [CHR 0x0A] @ ''X-Note: c+d%21'' @ [CHR 0x0A]
      @ [CHR 0x0A] @ ''e+f%21'') =
     Inr (''GET'', ''/a b!'', ''HTTP/1.1'', [''X-Note'' \<mapsto> ''c+d!''], ''e f!'')
   \<and> header_name ''X-Note: c+d%21'' = ''X-Note''
   \<and> [''X-Note'' \<mapsto> ''c+d!''] ''X-Note'' = Some (header_value ''X-Note: c+d%21'')
   \<and> unquote ''c+d'' = ''c+d'' \<and> unquote_plus ''c+d'' = ''c d''"
proof -
  have p: "parse_request plus_request =
     Inr (''GET'', ''/a b!'', ''HTTP/1.1'', [''X-Note'' \<mapsto> ''c+d!''], ''e f!'')"
    by (simp add: parse_request_def splitlines_plus_request match_plus_request split_plus_request
        headers_plus_request unquote_examples del: parse_headers.simps)
  have n: "header_name ''X-Note: c+d%21'' = ''X-Note''"
    by (simp add: header_name_def partition_str_def strip_def isspace_def)
  have i: "index_empty (splitlines plus_request) = Some 2"
    by (simp add: splitlines_plus_request)
  from parse_request_decoding [OF p] obtain raw crlf where
    c: "index_empty (splitlines plus_request) = Some crlf"
    and k: "\<forall>k. [''X-Note'' \<mapsto> ''c+d!''] k =
               (case find (\<lambda>h. header_name h = k)
                       (rev (drop 1 (take crlf (splitlines plus_request)))) of
                  None \<Rightarrow> None
                | Some h \<Rightarrow> Some (header_value h))"
    and d: "\<forall>s. CHR ''%'' \<notin> set s \<longrightarrow>
               unquote s = s
             \<and> unquote_plus s = map (\<lambda>c. if c = CHR ''+'' then CHR '' '' else c) s"
    by blast
  from c i have "crlf = 2" by simp
  with k [rule_format, of "''X-Note''"] n
  have v: "[''X-Note'' \<mapsto> ''c+d!''] ''X-Note'' = Some (header_value ''X-Note: c+d%21'')"
    by (simp add: splitlines_plus_request)
  from d [rule_format, of "''c+d''"]
  have "unquote ''c+d'' = ''c+d'' \<and> unquote_plus ''c+d'' = ''c d''" by simp
  with v have "[''X-Note'' \<mapsto> ''c+d!''] ''X-Note'' = Some (header_value ''X-Note: c+d%21'')
        \<and> unquote ''c+d'' = ''c+d'' \<and> unquote_plus ''c+d'' = ''c d''" by simp
  with p n show ?thesis by (simp add: plus_request_def)
qed

text \<open>
  C9 as first stated (\<^verbatim>\<open>+\<close> decodes to a space in header values) does not hold: the
  header value \<^verbatim>\<open>c+d%21\<close> is stored as \<^verbatim>\<open>c+d!\<close>, while the same text would become
  \<^verbatim>\<open>c d!\<close> in the path or the body.
\<close>

theorem parse_request_counterexample:
  "parse_request (''GET /a+b%21 HTTP/1.1'' @ [CHR 0x0A] @ ''X-Note: c+d%21'' @ [CHR 0x0A]
      @ [CHR 0x0A] @ ''e+f%21'') =
     Inr (''GET'', ''/a b!'', ''HTTP/1.1'', [''X-Note'' \<mapsto> ''c+d!''], ''e f!'')
   \<and> ''c+d!'' \<noteq> ''c d!''"
proof -
  have "parse_request plus_request =
     Inr (''GET'', ''/a b!'', ''HTTP/1.1'', [''X-Note'' \<mapsto> ''c+d!''], ''e f!'')"
    by (simp add: parse_request_def splitlines_plus_request match_plus_request split_plus_request
        headers_plus_request unquote_examples del: parse_headers.simps)
  then show ?thesis by (simp add: plus_request_def)
qed

section \<open>The dispatcher and the integrity check\<close>



















end
